theory Spec2Isabelle
  imports Complex_Main
begin

section \<open>Quality control of patch-clamp recordings (multipatch\_analysis/qc.py)\<close>

subsection \<open>Floating-point scalars\<close>

text \<open>
  Every quantity the two functions read is a Python or numpy float, and the only things the
  code does with one are to compare it with a literal threshold and to take \<open>abs\<close> of it.
  A float is modelled as \<open>real option\<close>: \<open>Some x\<close> is the number \<open>x\<close>, \<open>None\<close> is NaN.
  Every ordered comparison with NaN is false, which is what \<open>flt\<close> and \<open>fgt\<close> say.
  An infinity compares with a finite threshold as any number beyond it does, so it needs
  no value of its own. A literal such as \<^verbatim>\<open>-800e-12\<close> is written as the rational
  \<open>- 800 / 10 ^ 12\<close>.
\<close>

type_synonym pyfloat = "real option"

fun flt :: "pyfloat \<Rightarrow> pyfloat \<Rightarrow> bool" where
  "flt (Some a) (Some b) = (a < b)"
| "flt _ _ = False"

definition fgt :: "pyfloat \<Rightarrow> pyfloat \<Rightarrow> bool" where
  "fgt x y = flt y x"

fun fabs :: "pyfloat \<Rightarrow> pyfloat" where
  "fabs (Some a) = Some \<bar>a\<bar>"
| "fabs None = None"

subsection \<open>Recordings\<close>

text \<open>
  The attributes of a recording that qc.py reads: \<^verbatim>\<open>rec.clamp_mode\<close>, the three baseline
  scalars, and the sample arrays of the channels \<^verbatim>\<open>rec['primary']\<close> and \<^verbatim>\<open>rec['command']\<close>.
\<close>

record recording =
  clamp_mode :: string
  baseline_current :: pyfloat
  baseline_potential :: pyfloat
  baseline_rms_noise :: pyfloat
  primary :: "pyfloat list"
  command :: "pyfloat list"

text \<open>\<^verbatim>\<open>(data == 0).sum()\<close>: the number of samples equal to zero (NaN is not).\<close>

definition count_zeros :: "pyfloat list \<Rightarrow> nat" where
  "count_zeros data = length (filter (\<lambda>x. x = Some 0) data)"

text \<open>
  \<^verbatim>\<open>recording_qc_pass(rec)\<close>, lines 25-40. Each \<^verbatim>\<open>return False\<close> is one branch, in the
  order of the source; a clamp mode other than \<^verbatim>\<open>'ic'\<close> and \<^verbatim>\<open>'vc'\<close> meets neither
  mode-specific branch.
\<close>

definition recording_qc_pass :: "recording \<Rightarrow> bool" where
  "recording_qc_pass rec =
     (if flt (baseline_current rec) (Some (- 800 / 10 ^ 12))
         \<or> fgt (baseline_current rec) (Some (800 / 10 ^ 12)) then False
      else if clamp_mode rec = ''ic''
         \<and> (flt (baseline_potential rec) (Some (- 85 / 10 ^ 3))
            \<or> fgt (baseline_potential rec) (Some (- 45 / 10 ^ 3))) then False
      else if clamp_mode rec = ''ic''
         \<and> fgt (baseline_rms_noise rec) (Some (5 / 10 ^ 3)) then False
      else if clamp_mode rec = ''vc''
         \<and> fgt (baseline_rms_noise rec) (Some (200 / 10 ^ 12)) then False
      else if count_zeros (primary rec) > length (primary rec) div 10 then False
      else True)"

subsection \<open>Slices and statistics of a channel\<close>

text \<open>
  \<^verbatim>\<open>channel[window[0]:window[1]]\<close> with integer bounds: a negative bound counts from the
  end, and both bounds are clipped to the length, so the slice never fails and may be empty.
\<close>

definition py_bound :: "nat \<Rightarrow> int \<Rightarrow> nat" where
  "py_bound n i = (if i < 0 then nat (max 0 (i + int n)) else min n (nat i))"

definition py_slice :: "'a list \<Rightarrow> int \<Rightarrow> int \<Rightarrow> 'a list" where
  "py_slice xs start stop =
     (let lo = py_bound (length xs) start; hi = py_bound (length xs) stop
      in take (hi - lo) (drop lo xs))"

datatype error = TypeError string | ValueError

text \<open>
  \<^verbatim>\<open>data.data.max()\<close>: numpy raises ValueError on an empty array, and the maximum of an
  array that holds a NaN is NaN.
\<close>

fun fmax :: "pyfloat \<Rightarrow> pyfloat \<Rightarrow> pyfloat" where
  "fmax (Some a) (Some b) = Some (max a b)"
| "fmax _ _ = None"

fun np_max :: "pyfloat list \<Rightarrow> error + pyfloat" where
  "np_max [] = Inl ValueError"
| "np_max (x # xs) = Inr (fold fmax xs x)"

text \<open>
  \<^verbatim>\<open>median()\<close> and \<^verbatim>\<open>std()\<close> are methods of the time-series class, which is library code
  outside this repository. The model takes them as the parameters \<open>median\<close> and \<open>std\<close>,
  functions from the samples to a float, so every theorem below holds for whatever these
  methods compute, rounding included. \<open>np_median\<close> and \<open>np_std\<close> are the textbook
  functions over the reals (NaN on an empty array or on one that holds a NaN); they
  instantiate the parameters where a theorem is evaluated on a concrete input.
\<close>

definition np_median :: "pyfloat list \<Rightarrow> pyfloat" where
  "np_median xs =
     (if xs = [] \<or> None \<in> set xs then None
      else let s = sort (map the xs); n = length s
           in Some (if odd n then s ! (n div 2)
                    else (s ! (n div 2 - 1) + s ! (n div 2)) / 2))"

definition np_std :: "pyfloat list \<Rightarrow> pyfloat" where
  "np_std xs =
     (if xs = [] \<or> None \<in> set xs then None
      else let ys = map the xs; n = real (length ys); m = sum_list ys / n
           in Some (sqrt (sum_list (map (\<lambda>y. (y - m) ^ 2) ys) / n)))"

subsection \<open>Pulse responses\<close>

text \<open>
  The block "Check for noise in response window", lines 84-97. It ends in one of three
  ways: it raises (\<open>Raised\<close>), it returns \<^verbatim>\<open>False, False\<close> (\<open>Rejected\<close>), or it falls
  through to the next check with the local \<^verbatim>\<open>base\<close> set (\<open>Base\<close>).
  \<^verbatim>\<open>1.5e-3\<close> is \<open>15 / 10 ^ 4\<close>.
\<close>

datatype window_result = Raised error | Rejected | Base pyfloat

definition window_statistics ::
  "(pyfloat list \<Rightarrow> pyfloat) \<Rightarrow> (pyfloat list \<Rightarrow> pyfloat) \<Rightarrow> recording \<Rightarrow> int \<times> int
     \<Rightarrow> window_result" where
  "window_statistics median std post_rec window =
     (if clamp_mode post_rec = ''ic'' then
        (let data = py_slice (primary post_rec) (fst window) (snd window);
             base = median data
         in if fgt (std data) (Some (15 / 10 ^ 4)) then Rejected
            else case np_max data of
                   Inl e \<Rightarrow> Raised e
                 | Inr m \<Rightarrow> if fgt m (Some (- 40 / 10 ^ 3)) then Rejected else Base base)
      else if clamp_mode post_rec = ''vc'' then
        (let data = py_slice (primary post_rec) (fst window) (snd window);
             base = median (py_slice (command post_rec) (fst window) (snd window))
         in if fgt (std data) (Some (15 / 10 ^ 12)) then Rejected else Base base)
      else Raised (TypeError (''Unsupported clamp mode '' @ clamp_mode post_rec)))"

text \<open>
  "Check holding potential is appropriate for each sign", lines 104-108: one verdict per
  entry of \<^verbatim>\<open>limits\<close>, the excitatory one first.
\<close>

definition limits :: "(real \<times> real) list" where
  "limits = [(- 85 / 10 ^ 3, - 45 / 10 ^ 3), (- 60 / 10 ^ 3, - 45 / 10 ^ 3)]"

definition holding_potential_qc :: "pyfloat \<Rightarrow> pyfloat \<Rightarrow> bool \<times> bool" where
  "holding_potential_qc base base2 =
     (let qc_pass = map (\<lambda>(bmin, bmax).
            (flt (Some bmin) base \<and> flt base (Some bmax))
          \<and> (flt (Some bmin) base2 \<and> flt base2 (Some bmax))) limits
      in (qc_pass ! 0, qc_pass ! 1))"

text \<open>
  \<^verbatim>\<open>pulse_response_qc_pass(post_rec, window, n_spikes, adjacent_pulses)\<close>, lines 76-110.
  \<^verbatim>\<open>n_spikes\<close> is an integer or \<^verbatim>\<open>None\<close>; the result is the raised error or the pair
  (excitatory verdict, inhibitory verdict).
\<close>

definition pulse_response_qc_pass ::
  "(pyfloat list \<Rightarrow> pyfloat) \<Rightarrow> (pyfloat list \<Rightarrow> pyfloat) \<Rightarrow> recording \<Rightarrow> int \<times> int
     \<Rightarrow> int option \<Rightarrow> pyfloat list \<Rightarrow> error + (bool \<times> bool)" where
  "pulse_response_qc_pass median std post_rec window n_spikes adjacent_pulses =
     (if recording_qc_pass post_rec = False then Inr (False, False)
      else if n_spikes = Some 0 then Inr (False, False)
      else case window_statistics median std post_rec window of
             Raised e \<Rightarrow> Inl e
           | Rejected \<Rightarrow> Inr (False, False)
           | Base base \<Rightarrow>
               if list_ex (\<lambda>t. flt (fabs t) (Some (8 / 10 ^ 3))) adjacent_pulses
               then Inr (False, False)
               else Inr (holding_potential_qc base (baseline_potential post_rec)))"

subsection \<open>Vocabulary of the properties\<close>

text \<open>
  A float lies strictly inside the open interval from \<open>lo\<close> to \<open>hi\<close>; NaN lies in none.
\<close>

definition strictly_inside :: "real \<Rightarrow> real \<Rightarrow> pyfloat \<Rightarrow> bool" where
  "strictly_inside lo hi v = (case v of None \<Rightarrow> False | Some x \<Rightarrow> lo < x \<and> x < hi)"

text \<open>
  Two recordings on which the functions are evaluated. \<open>example_ic\<close> is a current-clamp
  sweep resting at -70 mV; \<open>example_vc\<close> is a voltage-clamp sweep held at -50 mV, whose
  primary channel (a current of 10 pA) and command channel (-50 mV) have different medians.
\<close>

definition example_ic :: recording where
  "example_ic =
     \<lparr>clamp_mode = ''ic'', baseline_current = Some 0,
      baseline_potential = Some (- 70 / 10 ^ 3), baseline_rms_noise = Some (1 / 10 ^ 3),
      primary = [Some (- 70 / 10 ^ 3), Some (- 70 / 10 ^ 3), Some (- 70 / 10 ^ 3)],
      command = [Some 0, Some 0, Some 0]\<rparr>"

definition example_vc :: recording where
  "example_vc =
     \<lparr>clamp_mode = ''vc'', baseline_current = Some (10 / 10 ^ 12),
      baseline_potential = Some (- 50 / 10 ^ 3), baseline_rms_noise = Some (5 / 10 ^ 12),
      primary = [Some (10 / 10 ^ 12), Some (10 / 10 ^ 12), Some (10 / 10 ^ 12)],
      command = [Some (- 50 / 10 ^ 3), Some (- 50 / 10 ^ 3), Some (- 50 / 10 ^ 3)]\<rparr>"

text \<open>
  A voltage-clamp sweep whose channels change inside the sweep: the last sample of the
  primary channel is 100 pA and the last sample of the command channel is -70 mV, so
  different windows have different statistics.
\<close>

definition example_vc_step :: recording where
  "example_vc_step =
     \<lparr>clamp_mode = ''vc'', baseline_current = Some (10 / 10 ^ 12),
      baseline_potential = Some (- 50 / 10 ^ 3), baseline_rms_noise = Some (5 / 10 ^ 12),
      primary = [Some (10 / 10 ^ 12), Some (10 / 10 ^ 12), Some (100 / 10 ^ 12)],
      command = [Some (- 50 / 10 ^ 3), Some (- 50 / 10 ^ 3), Some (- 70 / 10 ^ 3)]\<rparr>"

section \<open>Auxiliary facts\<close>

text \<open>
  \<open>recording_qc_pass\<close> as the conjunction of its five checks.
\<close>

lemma recording_qc_pass_iff:
  "recording_qc_pass r \<longleftrightarrow>
     \<not> flt (baseline_current r) (Some (- 800 / 10 ^ 12))
   \<and> \<not> flt (Some (800 / 10 ^ 12)) (baseline_current r)
   \<and> (clamp_mode r = ''ic'' \<longrightarrow>
         \<not> flt (baseline_potential r) (Some (- 85 / 10 ^ 3))
       \<and> \<not> flt (Some (- 45 / 10 ^ 3)) (baseline_potential r)
       \<and> \<not> flt (Some (5 / 10 ^ 3)) (baseline_rms_noise r))
   \<and> (clamp_mode r = ''vc'' \<longrightarrow> \<not> flt (Some (200 / 10 ^ 12)) (baseline_rms_noise r))
   \<and> count_zeros (primary r) \<le> length (primary r) div 10"
  by (auto simp add: recording_qc_pass_def fgt_def)

lemma count_zeros_append: "count_zeros (xs @ ys) = count_zeros xs + count_zeros ys"
  by (simp add: count_zeros_def)

lemma count_zeros_replicate:
  "count_zeros (replicate k x) = (if x = Some 0 then k else 0)"
  by (simp add: count_zeros_def)

text \<open>
  \<open>py_slice\<close> on a window inside the channel, \<open>0 \<le> start \<le> stop \<le> length\<close>, is the
  list of the samples at the indices \<open>start\<close>, ..., \<open>stop - 1\<close>; a negative bound counts
  from the end, and a bound beyond either end is clipped.
\<close>

lemma py_bound_inside: "0 \<le> i \<Longrightarrow> i \<le> int n \<Longrightarrow> py_bound n i = nat i"
  by (simp add: py_bound_def)

lemma py_bound_negative: "i < 0 \<Longrightarrow> - int n \<le> i \<Longrightarrow> py_bound n i = nat (int n + i)"
  by (simp add: py_bound_def add.commute)

lemma py_bound_clipped:
  "int n \<le> i \<Longrightarrow> py_bound n i = n" "i \<le> - int n \<Longrightarrow> py_bound n i = 0"
  by (auto simp add: py_bound_def)

lemma take_drop_window:
  assumes "a \<le> b" and "b \<le> length xs"
  shows "take (b - a) (drop a xs) = map ((!) xs) [a..<b]"
proof (rule nth_equalityI)
  show "length (take (b - a) (drop a xs)) = length (map ((!) xs) [a..<b])"
    using assms by simp
next
  fix i
  assume "i < length (take (b - a) (drop a xs))"
  then have "i < b - a" by simp
  then show "take (b - a) (drop a xs) ! i = map ((!) xs) [a..<b] ! i"
    using assms by simp
qed

lemma py_slice_window:
  assumes "0 \<le> start" and "start \<le> stop" and "stop \<le> int (length xs)"
  shows "py_slice xs start stop = map ((!) xs) [nat start..<nat stop]"
proof -
  have lo: "py_bound (length xs) start = nat start"
    using assms by (simp add: py_bound_inside)
  have hi: "py_bound (length xs) stop = nat stop"
    using assms by (simp add: py_bound_inside)
  have "nat start \<le> nat stop" and "nat stop \<le> length xs"
    using assms by simp_all
  then show ?thesis
    by (simp add: py_slice_def lo hi take_drop_window)
qed

lemma py_slice_length:
  assumes "0 \<le> start" and "start \<le> stop" and "stop \<le> int (length xs)"
  shows "length (py_slice xs start stop) = nat (stop - start)"
  using assms by (simp add: py_slice_window)

lemma py_slice_nth:
  assumes "0 \<le> start" and "start \<le> stop" and "stop \<le> int (length xs)"
    and "i < nat (stop - start)"
  shows "py_slice xs start stop ! i = xs ! (nat start + i)"
  using assms by (simp add: py_slice_window)

lemma py_slice_examples:
  "py_slice [1, 2, 3, 4, 5 :: int] 1 3 = [2, 3]"
  "py_slice [1, 2, 3, 4, 5 :: int] (- 2) 10 = [4, 5]"
  "py_slice [1, 2, 3, 4, 5 :: int] 3 1 = []"
  "py_slice [1, 2, 3, 4, 5 :: int] (- 9) 2 = [1, 2]"
  by (simp_all add: py_slice_def py_bound_def)

text \<open>
  \<open>np_max\<close> fails on the empty array only, is NaN once a sample is NaN, and is the
  largest sample otherwise.
\<close>

lemma np_max_error: "np_max xs = Inl e \<longleftrightarrow> xs = [] \<and> e = ValueError"
  by (cases xs) auto

lemma fold_fmax_None: "fold fmax xs None = None"
  by (induction xs) simp_all

lemma fold_fmax_Some:
  "None \<notin> set xs \<Longrightarrow> fold fmax xs (Some a) = Some (Max (insert a (the ` set xs)))"
proof (induction xs arbitrary: a)
  case Nil
  then show ?case by simp
next
  case (Cons x xs)
  then obtain b where b: "x = Some b" by (cases x) auto
  have "fold fmax (x # xs) (Some a) = fold fmax xs (Some (max b a))"
    by (simp add: b)
  also have "\<dots> = Some (Max (insert (max b a) (the ` set xs)))"
    using Cons by simp
  also have "Max (insert (max b a) (the ` set xs)) = Max (insert a (the ` set (x # xs)))"
  proof (cases "xs = []")
    case True
    then show ?thesis by (simp add: b max.commute)
  next
    case False
    then show ?thesis by (simp add: b max.assoc max.commute max.left_commute)
  qed
  finally show ?case .
qed

lemma np_max_samples:
  assumes "xs \<noteq> []" and "None \<notin> set xs"
  shows "np_max xs = Inr (Some (Max (the ` set xs)))"
proof -
  from assms(1) obtain x ys where xs: "xs = x # ys" by (cases xs) auto
  with assms(2) obtain a where "x = Some a" and "None \<notin> set ys"
    by (cases x) auto
  then show ?thesis
    by (simp add: xs fold_fmax_Some)
qed

lemma fold_fmax_NaN: "None \<in> set xs \<Longrightarrow> fold fmax xs a = None"
proof (induction xs arbitrary: a)
  case Nil
  then show ?case by simp
next
  case (Cons x xs)
  show ?case
  proof (cases x)
    case None
    then show ?thesis by (simp add: fold_fmax_None)
  next
    case (Some b)
    with Cons show ?thesis by simp
  qed
qed

lemma np_max_NaN: "None \<in> set xs \<Longrightarrow> np_max xs = Inr None"
proof (cases xs)
  case Nil
  assume "None \<in> set xs"
  with Nil show ?thesis by simp
next
  case (Cons x ys)
  assume "None \<in> set xs"
  with Cons show ?thesis
    by (cases x) (simp_all add: fold_fmax_None fold_fmax_NaN)
qed

lemma np_max_exceeds:
  assumes "None \<notin> set xs" and "Some v \<in> set xs" and "c < v"
  shows "\<exists>m. np_max xs = Inr (Some m) \<and> c < m"
proof -
  have ne: "xs \<noteq> []" using assms(2) by auto
  have "v \<in> the ` set xs" using assms(2) by force
  then have "v \<le> Max (the ` set xs)" by simp
  then show ?thesis
    using np_max_samples [OF ne assms(1)] assms(3) by auto
qed

text \<open>
  The two example recordings pass the recording-level check, and their windows of three
  samples pass the window statistics.
\<close>

lemma example_ic_passes: "recording_qc_pass example_ic"
  by (simp add: recording_qc_pass_def example_ic_def fgt_def count_zeros_def)

lemma example_vc_passes: "recording_qc_pass example_vc"
  by (simp add: recording_qc_pass_def example_vc_def fgt_def count_zeros_def)

lemma example_ic_window:
  "window_statistics np_median np_std example_ic (0, 3) = Base (Some (- 70 / 10 ^ 3))"
  by (simp add: window_statistics_def example_ic_def py_slice_def py_bound_def
      np_median_def np_std_def fgt_def)

lemma example_vc_window:
  "window_statistics np_median np_std example_vc (0, 3) = Base (Some (- 50 / 10 ^ 3))"
  by (simp add: window_statistics_def example_vc_def py_slice_def py_bound_def
      np_median_def np_std_def fgt_def)

lemma example_potentials:
  "baseline_potential example_ic = Some (- 70 / 10 ^ 3)"
  "baseline_potential example_vc = Some (- 50 / 10 ^ 3)"
  by (simp_all add: example_ic_def example_vc_def)

text \<open>
  \<open>example_vc_step\<close> passes the recording-level check; the standard deviation of the two
  samples 10 pA and 100 pA is 45 pA.
\<close>

lemma std45: "np_std [Some (10 / 10 ^ 12), Some (100 / 10 ^ 12)] = Some (45 / 10 ^ 12)"
proof -
  have "sqrt ((45 / 10 ^ 12)\<^sup>2) = (45 / 10 ^ 12 :: real)"
    by (rule real_sqrt_unique) simp_all
  moreover have "(((10 / 10 ^ 12 - (10 / 10 ^ 12 + 100 / 10 ^ 12) / 2)\<^sup>2
      + (100 / 10 ^ 12 - (10 / 10 ^ 12 + 100 / 10 ^ 12) / 2)\<^sup>2) / 2 :: real) = (45 / 10 ^ 12)\<^sup>2"
    by (simp add: power2_eq_square)
  ultimately show ?thesis
    by (simp add: np_std_def)
qed

lemma example_vc_step_passes: "recording_qc_pass example_vc_step"
  by (simp add: recording_qc_pass_def example_vc_step_def fgt_def count_zeros_def)

lemma example_vc_step_channels:
  "clamp_mode example_vc_step = ''vc''"
  "baseline_potential example_vc_step = Some (- 50 / 10 ^ 3)"
  "primary example_vc_step = [Some (10 / 10 ^ 12), Some (10 / 10 ^ 12), Some (100 / 10 ^ 12)]"
  "command example_vc_step = [Some (- 50 / 10 ^ 3), Some (- 50 / 10 ^ 3), Some (- 70 / 10 ^ 3)]"
  by (simp_all add: example_vc_step_def)

section \<open>The recording-level check\<close>

text \<open>
  Claim C1: a baseline current of exactly -800e-12 or +800e-12 A, and for a current-clamp
  recording a baseline potential of exactly -85e-3 V, are to be rejected, while -84.999e-3
  passes. The docstring of the function asks for this, "Baseline current must be < 800 pA",
  and the pulse-response check excludes -85e-3 with a strict comparison (line 108). Lines 25
  and 28 test less-than and greater-than against the limits, which are false at the limit
  itself. Evaluated on \<open>example_ic\<close> with one value moved to the limit and nothing else
  changed: the recording-level check returns true at each of the three boundary values,
  where the claim and the docstring want false; at -85e-3 the pulse-response check gives
  (False, False) for the same recording; and -84.999e-3 passes, as the claim says.
\<close>

theorem recording_qc_pass_boundary_accepted:
  "recording_qc_pass (example_ic\<lparr>baseline_current := Some (- 800 / 10 ^ 12)\<rparr>) = True
 \<and> recording_qc_pass (example_ic\<lparr>baseline_current := Some (800 / 10 ^ 12)\<rparr>) = True
 \<and> recording_qc_pass (example_ic\<lparr>baseline_potential := Some (- 85 / 10 ^ 3)\<rparr>) = True
 \<and> pulse_response_qc_pass np_median np_std
      (example_ic\<lparr>baseline_potential := Some (- 85 / 10 ^ 3)\<rparr>) (0, 3) None []
      = Inr (False, False)
 \<and> recording_qc_pass (example_ic\<lparr>baseline_potential := Some (- 84999 / 10 ^ 6)\<rparr>) = True"
  by (simp add: recording_qc_pass_def pulse_response_qc_pass_def window_statistics_def
      example_ic_def fgt_def count_zeros_def py_slice_def py_bound_def np_median_def np_std_def
      holding_potential_qc_def limits_def)

text \<open>
  Claim C6: the zero-fraction check of lines 36-38 compares the number of zero samples
  with the length floor-divided by 10, strictly. More zeros than that give false. With a
  primary channel of length 100, 11 zeros give false, and 10 zeros leave the result to the
  other checks. The recording with its primary channel emptied has no zero sample, so it
  passes exactly when the checks of lines 25-34 do; the last conjunct says that
  \<open>recording_qc_pass\<close> is those checks together with the zero-fraction check.
\<close>

theorem zero_fraction_check:
  "(count_zeros (primary r) > length (primary r) div 10 \<longrightarrow> recording_qc_pass r = False)
 \<and> (length (primary r) = 100 \<and> count_zeros (primary r) = 11
       \<longrightarrow> recording_qc_pass r = False)
 \<and> (length (primary r) = 100 \<and> count_zeros (primary r) = 10
       \<longrightarrow> recording_qc_pass r = recording_qc_pass (r\<lparr>primary := []\<rparr>))
 \<and> recording_qc_pass r =
       (recording_qc_pass (r\<lparr>primary := []\<rparr>)
          \<and> \<not> count_zeros (primary r) > length (primary r) div 10)"
  by (auto simp add: recording_qc_pass_iff count_zeros_def)

text \<open>
  \<open>example_ic\<close> with 10 zeros among 100 samples passes, with 11 zeros it fails.
\<close>

theorem zero_fraction_check_witness:
  "recording_qc_pass
     (example_ic\<lparr>primary := replicate 10 (Some 0) @ replicate 90 (Some (- 70 / 10 ^ 3))\<rparr>) = True
 \<and> recording_qc_pass
     (example_ic\<lparr>primary := replicate 11 (Some 0) @ replicate 89 (Some (- 70 / 10 ^ 3))\<rparr>) = False"
  using zero_fraction_check
      [of "example_ic\<lparr>primary := replicate 10 (Some 0) @ replicate 90 (Some (- 70 / 10 ^ 3))\<rparr>"]
    zero_fraction_check
      [of "example_ic\<lparr>primary := replicate 11 (Some 0) @ replicate 89 (Some (- 70 / 10 ^ 3))\<rparr>"]
    example_ic_passes
  by (simp add: count_zeros_append count_zeros_replicate recording_qc_pass_iff example_ic_def)

section \<open>The pulse-response check\<close>

text \<open>
  Claim C2: when \<open>recording_qc_pass\<close> is false, \<open>pulse_response_qc_pass\<close> returns the pair
  (False, False), whatever the window, the spike count, the adjacent pulses and the clamp
  mode are; the result is a pair, not an error.
\<close>

theorem pulse_response_requires_recording_qc:
  "recording_qc_pass r = False \<Longrightarrow>
     pulse_response_qc_pass median std r w n adj = Inr (False, False)"
  by (simp add: pulse_response_qc_pass_def)

text \<open>
  A recording of the unknown mode \<^verbatim>\<open>'xyz'\<close> with a baseline current of 900 pA and an
  adjacent pulse at 5 ms: the result is (False, False), and nothing is raised.
\<close>

theorem pulse_response_requires_recording_qc_witness:
  "recording_qc_pass (example_ic\<lparr>clamp_mode := ''xyz'', baseline_current := Some (900 / 10 ^ 12)\<rparr>) = False
 \<and> pulse_response_qc_pass np_median np_std
      (example_ic\<lparr>clamp_mode := ''xyz'', baseline_current := Some (900 / 10 ^ 12)\<rparr>)
      (0, 3) (Some 1) [Some (5 / 10 ^ 3)] = Inr (False, False)"
proof -
  have h: "recording_qc_pass
      (example_ic\<lparr>clamp_mode := ''xyz'', baseline_current := Some (900 / 10 ^ 12)\<rparr>) = False"
    by (simp add: recording_qc_pass_def example_ic_def fgt_def)
  show ?thesis
    using h pulse_response_requires_recording_qc [OF h] by simp
qed

text \<open>
  Claim C8: for a recording that passes \<open>recording_qc_pass\<close>, a spike count of 0 gives
  (False, False). With the spike count \<^verbatim>\<open>None\<close> the check of line 80 is skipped:
  the result is that of the window statistics and the checks after them, and it is the
  same as for any spike count other than 0.
\<close>

theorem spike_count_check:
  assumes "recording_qc_pass r"
  shows "pulse_response_qc_pass median std r w (Some 0) adj = Inr (False, False)
       \<and> pulse_response_qc_pass median std r w None adj =
           (case window_statistics median std r w of
              Raised e \<Rightarrow> Inl e
            | Rejected \<Rightarrow> Inr (False, False)
            | Base base \<Rightarrow>
                if list_ex (\<lambda>t. flt (fabs t) (Some (8 / 10 ^ 3))) adj then Inr (False, False)
                else Inr (holding_potential_qc base (baseline_potential r)))
       \<and> (k \<noteq> 0 \<longrightarrow> pulse_response_qc_pass median std r w None adj =
                        pulse_response_qc_pass median std r w (Some k) adj)"
  using assms by (simp add: pulse_response_qc_pass_def)

text \<open>
  On \<open>example_vc\<close>: spike count 0 is rejected; \<^verbatim>\<open>None\<close> and 2 both give (True, True).
\<close>

theorem spike_count_check_witness:
  "pulse_response_qc_pass np_median np_std example_vc (0, 3) (Some 0) [] = Inr (False, False)
 \<and> pulse_response_qc_pass np_median np_std example_vc (0, 3) None [] = Inr (True, True)
 \<and> pulse_response_qc_pass np_median np_std example_vc (0, 3) (Some 2) [] = Inr (True, True)"
proof -
  note s = spike_count_check [OF example_vc_passes,
      where median = np_median and std = np_std and w = "(0, 3)" and adj = "[]" and k = 2]
  have zero:
    "pulse_response_qc_pass np_median np_std example_vc (0, 3) (Some 0) [] = Inr (False, False)"
    by (rule s [THEN conjunct1])
  have none:
    "pulse_response_qc_pass np_median np_std example_vc (0, 3) None [] = Inr (True, True)"
    using s [THEN conjunct2, THEN conjunct1]
    by (simp add: example_vc_window holding_potential_qc_def limits_def example_potentials)
  have k: "(2::int) \<noteq> 0" by simp
  have two:
    "pulse_response_qc_pass np_median np_std example_vc (0, 3) (Some 2) [] = Inr (True, True)"
    unfolding s [THEN conjunct2, THEN conjunct2, rule_format, OF k, symmetric]
    by (rule none)
  show ?thesis
    using zero none two by simp
qed

text \<open>
  Claim C3: \<open>pulse_response_qc_pass\<close> raises the TypeError of line 97 exactly when the
  recording passes \<open>recording_qc_pass\<close>, the spike count is not 0 and the clamp mode is
  neither \<^verbatim>\<open>'ic'\<close> nor \<^verbatim>\<open>'vc'\<close>; its message ends with the offending mode.
  \<open>recording_qc_pass\<close> has no raising branch (its result is a boolean); for such a mode it
  is the baseline-current check together with the zero-fraction check.
\<close>

theorem unsupported_clamp_mode_error:
  "((\<exists>msg. pulse_response_qc_pass median std r w n adj = Inl (TypeError msg))
      \<longleftrightarrow> recording_qc_pass r \<and> n \<noteq> Some 0
          \<and> clamp_mode r \<noteq> ''ic'' \<and> clamp_mode r \<noteq> ''vc'')
 \<and> (\<forall>msg. pulse_response_qc_pass median std r w n adj = Inl (TypeError msg)
      \<longrightarrow> msg = ''Unsupported clamp mode '' @ clamp_mode r)
 \<and> (clamp_mode r \<noteq> ''ic'' \<and> clamp_mode r \<noteq> ''vc''
      \<longrightarrow> recording_qc_pass r =
           (\<not> flt (baseline_current r) (Some (- 800 / 10 ^ 12))
          \<and> \<not> fgt (baseline_current r) (Some (800 / 10 ^ 12))
          \<and> \<not> count_zeros (primary r) > length (primary r) div 10))"
proof (intro conjI allI impI)
  show "(\<exists>msg. pulse_response_qc_pass median std r w n adj = Inl (TypeError msg))
      \<longleftrightarrow> recording_qc_pass r \<and> n \<noteq> Some 0
          \<and> clamp_mode r \<noteq> ''ic'' \<and> clamp_mode r \<noteq> ''vc''"
    by (auto simp add: pulse_response_qc_pass_def window_statistics_def Let_def np_max_error
        split: if_splits sum.splits window_result.splits)
next
  fix msg
  assume "pulse_response_qc_pass median std r w n adj = Inl (TypeError msg)"
  then show "msg = ''Unsupported clamp mode '' @ clamp_mode r"
    by (auto simp add: pulse_response_qc_pass_def window_statistics_def Let_def np_max_error
        split: if_splits sum.splits window_result.splits)
next
  assume "clamp_mode r \<noteq> ''ic'' \<and> clamp_mode r \<noteq> ''vc''"
  then show "recording_qc_pass r =
           (\<not> flt (baseline_current r) (Some (- 800 / 10 ^ 12))
          \<and> \<not> fgt (baseline_current r) (Some (800 / 10 ^ 12))
          \<and> \<not> count_zeros (primary r) > length (primary r) div 10)"
    by (auto simp add: recording_qc_pass_def)
qed

text \<open>
  \<open>example_ic\<close> relabelled \<^verbatim>\<open>'xyz'\<close>: the pulse-response check raises with the message
  "Unsupported clamp mode xyz"; the recording-level check passes, also with a baseline
  potential of 0 V and a noise of 1 V, and fails with a baseline current of 900 pA.
\<close>

theorem unsupported_clamp_mode_error_witness:
  "pulse_response_qc_pass np_median np_std (example_ic\<lparr>clamp_mode := ''xyz''\<rparr>)
      (0, 3) None [] = Inl (TypeError ''Unsupported clamp mode xyz'')
 \<and> recording_qc_pass (example_ic\<lparr>clamp_mode := ''xyz''\<rparr>) = True
 \<and> recording_qc_pass
      (example_ic\<lparr>clamp_mode := ''xyz'', baseline_potential := Some 0,
         baseline_rms_noise := Some 1\<rparr>) = True
 \<and> recording_qc_pass
      (example_ic\<lparr>clamp_mode := ''xyz'', baseline_current := Some (900 / 10 ^ 12)\<rparr>) = False"
  using unsupported_clamp_mode_error
      [of np_median np_std "example_ic\<lparr>clamp_mode := ''xyz''\<rparr>" "(0, 3)" None "[]"]
    unsupported_clamp_mode_error
      [of np_median np_std "example_ic\<lparr>clamp_mode := ''xyz'', baseline_potential := Some 0,
         baseline_rms_noise := Some 1\<rparr>" "(0, 3)" None "[]"]
    unsupported_clamp_mode_error
      [of np_median np_std
         "example_ic\<lparr>clamp_mode := ''xyz'', baseline_current := Some (900 / 10 ^ 12)\<rparr>"
         "(0, 3)" None "[]"]
  by (auto simp add: example_ic_def fgt_def count_zeros_def)

text \<open>
  Claim C7: for a current-clamp recording that reaches the window statistics, the result
  is (False, False) when the standard deviation of the primary window exceeds 1.5e-3 V, or
  when the maximum of the primary window exceeds -40e-3 V. The third alternative states the
  second on the samples: no sample is NaN and some sample exceeds -40e-3.
\<close>

theorem current_clamp_noise_and_ceiling:
  assumes "recording_qc_pass r" and "n \<noteq> Some 0" and "clamp_mode r = ''ic''"
    and "fgt (std (py_slice (primary r) (fst w) (snd w))) (Some (15 / 10 ^ 4))
       \<or> (\<exists>m. np_max (py_slice (primary r) (fst w) (snd w)) = Inr m
              \<and> fgt m (Some (- 40 / 10 ^ 3)))
       \<or> (None \<notin> set (py_slice (primary r) (fst w) (snd w))
            \<and> (\<exists>v. Some v \<in> set (py_slice (primary r) (fst w) (snd w)) \<and> - 40 / 10 ^ 3 < v))"
  shows "pulse_response_qc_pass median std r w n adj = Inr (False, False)"
proof -
  have "window_statistics median std r w = Rejected"
    using assms(3,4) np_max_exceeds [of "py_slice (primary r) (fst w) (snd w)" _ "- 40 / 10 ^ 3"]
    by (fastforce simp add: window_statistics_def Let_def fgt_def)
  then show ?thesis
    using assms(1,2) by (simp add: pulse_response_qc_pass_def)
qed

text \<open>
  A window with one sample at -30 mV is rejected for its maximum; a standard deviation of
  2 mV is rejected for the noise.
\<close>

theorem current_clamp_noise_and_ceiling_witness:
  "pulse_response_qc_pass np_median np_std
     (example_ic\<lparr>primary := [Some (- 70 / 10 ^ 3), Some (- 30 / 10 ^ 3), Some (- 70 / 10 ^ 3)]\<rparr>)
     (0, 3) (Some 1) [] = Inr (False, False)
 \<and> pulse_response_qc_pass (\<lambda>xs. Some (- 70 / 10 ^ 3)) (\<lambda>xs. Some (2 / 10 ^ 3))
     example_ic (0, 3) (Some 1) [] = Inr (False, False)"
proof -
  have n: "Some (1::int) \<noteq> Some 0" by simp
  have p: "recording_qc_pass
     (example_ic\<lparr>primary := [Some (- 70 / 10 ^ 3), Some (- 30 / 10 ^ 3), Some (- 70 / 10 ^ 3)]\<rparr>)"
    by (simp add: recording_qc_pass_def example_ic_def fgt_def count_zeros_def)
  have m: "clamp_mode
     (example_ic\<lparr>primary := [Some (- 70 / 10 ^ 3), Some (- 30 / 10 ^ 3), Some (- 70 / 10 ^ 3)]\<rparr>) = ''ic''"
    by (simp add: example_ic_def)
  have m': "clamp_mode example_ic = ''ic''"
    by (simp add: example_ic_def)
  show ?thesis
    using current_clamp_noise_and_ceiling [OF p n m,
        where std = np_std and w = "(0, 3)" and median = np_median and adj = "[]"]
      current_clamp_noise_and_ceiling [OF example_ic_passes n m',
        where std = "\<lambda>xs. Some (2 / 10 ^ 3)" and w = "(0, 3)"
          and median = "\<lambda>xs. Some (- 70 / 10 ^ 3)" and adj = "[]"]
    by (simp add: example_ic_def py_slice_def py_bound_def fgt_def)
qed

text \<open>
  Claim C4: for a voltage-clamp recording that reaches the window statistics, the block
  rejects exactly when the standard deviation of the primary window exceeds 15e-12 A, and
  otherwise \<^verbatim>\<open>base\<close> is the median of the command channel over the window; the
  holding-potential check receives that median. The first two conjuncts hold for every
  pair of bounds, with the slice Python takes. The third names the window itself: for
  \<open>0 \<le> start \<le> stop\<close> within both channels the samples are those at the indices
  \<open>start\<close>, ..., \<open>stop - 1\<close>, of the primary channel for the standard deviation and of the
  command channel for the median.
\<close>

theorem voltage_clamp_window_statistics:
  assumes "recording_qc_pass r" and "n \<noteq> Some 0" and "clamp_mode r = ''vc''"
  shows "window_statistics median std r w =
           (if fgt (std (py_slice (primary r) (fst w) (snd w))) (Some (15 / 10 ^ 12))
            then Rejected
            else Base (median (py_slice (command r) (fst w) (snd w))))
       \<and> pulse_response_qc_pass median std r w n adj =
           (if fgt (std (py_slice (primary r) (fst w) (snd w))) (Some (15 / 10 ^ 12))
            then Inr (False, False)
            else if list_ex (\<lambda>t. flt (fabs t) (Some (8 / 10 ^ 3))) adj then Inr (False, False)
            else Inr (holding_potential_qc
                        (median (py_slice (command r) (fst w) (snd w)))
                        (baseline_potential r)))
       \<and> (0 \<le> fst w \<and> fst w \<le> snd w
            \<and> snd w \<le> int (length (primary r)) \<and> snd w \<le> int (length (command r))
          \<longrightarrow> window_statistics median std r w =
                 (if fgt (std (map ((!) (primary r)) [nat (fst w)..<nat (snd w)]))
                       (Some (15 / 10 ^ 12))
                  then Rejected
                  else Base (median (map ((!) (command r)) [nat (fst w)..<nat (snd w)])))
              \<and> pulse_response_qc_pass median std r w n adj =
                 (if fgt (std (map ((!) (primary r)) [nat (fst w)..<nat (snd w)]))
                       (Some (15 / 10 ^ 12))
                  then Inr (False, False)
                  else if list_ex (\<lambda>t. flt (fabs t) (Some (8 / 10 ^ 3))) adj
                  then Inr (False, False)
                  else Inr (holding_potential_qc
                              (median (map ((!) (command r)) [nat (fst w)..<nat (snd w)]))
                              (baseline_potential r))))"
proof -
  have ws: "window_statistics median std r w =
           (if fgt (std (py_slice (primary r) (fst w) (snd w))) (Some (15 / 10 ^ 12))
            then Rejected
            else Base (median (py_slice (command r) (fst w) (snd w))))"
    using assms(3) by (simp add: window_statistics_def)
  have pr: "pulse_response_qc_pass median std r w n adj =
           (if fgt (std (py_slice (primary r) (fst w) (snd w))) (Some (15 / 10 ^ 12))
            then Inr (False, False)
            else if list_ex (\<lambda>t. flt (fabs t) (Some (8 / 10 ^ 3))) adj then Inr (False, False)
            else Inr (holding_potential_qc
                        (median (py_slice (command r) (fst w) (snd w)))
                        (baseline_potential r)))"
    using assms(1,2) by (simp add: ws pulse_response_qc_pass_def)
  have slices: "py_slice (primary r) (fst w) (snd w)
        = map ((!) (primary r)) [nat (fst w)..<nat (snd w)]
      \<and> py_slice (command r) (fst w) (snd w)
        = map ((!) (command r)) [nat (fst w)..<nat (snd w)]"
    if "0 \<le> fst w \<and> fst w \<le> snd w
        \<and> snd w \<le> int (length (primary r)) \<and> snd w \<le> int (length (command r))"
    using that by (simp add: py_slice_window)
  show ?thesis
  proof (intro conjI impI)
    show "window_statistics median std r w =
           (if fgt (std (py_slice (primary r) (fst w) (snd w))) (Some (15 / 10 ^ 12))
            then Rejected
            else Base (median (py_slice (command r) (fst w) (snd w))))"
      by (rule ws)
  next
    show "pulse_response_qc_pass median std r w n adj =
           (if fgt (std (py_slice (primary r) (fst w) (snd w))) (Some (15 / 10 ^ 12))
            then Inr (False, False)
            else if list_ex (\<lambda>t. flt (fabs t) (Some (8 / 10 ^ 3))) adj then Inr (False, False)
            else Inr (holding_potential_qc
                        (median (py_slice (command r) (fst w) (snd w)))
                        (baseline_potential r)))"
      by (rule pr)
  next
    assume v: "0 \<le> fst w \<and> fst w \<le> snd w
        \<and> snd w \<le> int (length (primary r)) \<and> snd w \<le> int (length (command r))"
    show "window_statistics median std r w =
                 (if fgt (std (map ((!) (primary r)) [nat (fst w)..<nat (snd w)]))
                       (Some (15 / 10 ^ 12))
                  then Rejected
                  else Base (median (map ((!) (command r)) [nat (fst w)..<nat (snd w)])))"
      using ws slices [OF v] by simp
  next
    assume v: "0 \<le> fst w \<and> fst w \<le> snd w
        \<and> snd w \<le> int (length (primary r)) \<and> snd w \<le> int (length (command r))"
    show "pulse_response_qc_pass median std r w n adj =
                 (if fgt (std (map ((!) (primary r)) [nat (fst w)..<nat (snd w)]))
                       (Some (15 / 10 ^ 12))
                  then Inr (False, False)
                  else if list_ex (\<lambda>t. flt (fabs t) (Some (8 / 10 ^ 3))) adj
                  then Inr (False, False)
                  else Inr (holding_potential_qc
                              (median (map ((!) (command r)) [nat (fst w)..<nat (snd w)]))
                              (baseline_potential r)))"
      using pr slices [OF v] by simp
  qed
qed

text \<open>
  On \<open>example_vc_step\<close> the answer depends on the window. Over the samples 0 and 1 the
  primary median is 10 pA and the command median -50 mV, and the verdicts follow the command
  channel: (True, True). Over sample 2 alone the command median is -70 mV: (True, False).
  Over the samples 1 and 2 the primary window has a standard deviation of 45 pA and the
  response is rejected.
\<close>

theorem voltage_clamp_window_statistics_witness:
  "np_median (map ((!) (primary example_vc_step)) [0..<2]) = Some (10 / 10 ^ 12)
 \<and> np_median (map ((!) (command example_vc_step)) [0..<2]) = Some (- 50 / 10 ^ 3)
 \<and> window_statistics np_median np_std example_vc_step (0, 2) = Base (Some (- 50 / 10 ^ 3))
 \<and> pulse_response_qc_pass np_median np_std example_vc_step (0, 2) (Some 1) [] = Inr (True, True)
 \<and> window_statistics np_median np_std example_vc_step (2, 3) = Base (Some (- 70 / 10 ^ 3))
 \<and> pulse_response_qc_pass np_median np_std example_vc_step (2, 3) (Some 1) [] = Inr (True, False)
 \<and> np_std (map ((!) (primary example_vc_step)) [1..<3]) = Some (45 / 10 ^ 12)
 \<and> window_statistics np_median np_std example_vc_step (1, 3) = Rejected
 \<and> pulse_response_qc_pass np_median np_std example_vc_step (1, 3) (Some 1) [] = Inr (False, False)"
proof -
  have n: "Some (1::int) \<noteq> Some 0" by simp
  note vc = voltage_clamp_window_statistics [OF example_vc_step_passes n
      example_vc_step_channels(1), where median = np_median and std = np_std and adj = "[]",
      THEN conjunct2, THEN conjunct2, THEN mp]
  have w02: "0 \<le> fst (0::int, 2::int) \<and> fst (0::int, 2::int) \<le> snd (0::int, 2::int)
      \<and> snd (0::int, 2::int) \<le> int (length (primary example_vc_step))
      \<and> snd (0::int, 2::int) \<le> int (length (command example_vc_step))"
    by (simp add: example_vc_step_channels)
  have w23: "0 \<le> fst (2::int, 3::int) \<and> fst (2::int, 3::int) \<le> snd (2::int, 3::int)
      \<and> snd (2::int, 3::int) \<le> int (length (primary example_vc_step))
      \<and> snd (2::int, 3::int) \<le> int (length (command example_vc_step))"
    by (simp add: example_vc_step_channels)
  have w13: "0 \<le> fst (1::int, 3::int) \<and> fst (1::int, 3::int) \<le> snd (1::int, 3::int)
      \<and> snd (1::int, 3::int) \<le> int (length (primary example_vc_step))
      \<and> snd (1::int, 3::int) \<le> int (length (command example_vc_step))"
    by (simp add: example_vc_step_channels)
  have medians:
    "np_median (map ((!) (primary example_vc_step)) [0..<2]) = Some (10 / 10 ^ 12)"
    "np_median (map ((!) (command example_vc_step)) [0..<2]) = Some (- 50 / 10 ^ 3)"
    by (simp_all add: example_vc_step_channels upt_rec np_median_def)
  have first: "window_statistics np_median np_std example_vc_step (0, 2)
        = Base (Some (- 50 / 10 ^ 3))
      \<and> pulse_response_qc_pass np_median np_std example_vc_step (0, 2) (Some 1) []
        = Inr (True, True)"
    using vc [OF w02]
    by (simp add: example_vc_step_channels upt_rec np_median_def np_std_def fgt_def
        holding_potential_qc_def limits_def)
  have last: "window_statistics np_median np_std example_vc_step (2, 3)
        = Base (Some (- 70 / 10 ^ 3))
      \<and> pulse_response_qc_pass np_median np_std example_vc_step (2, 3) (Some 1) []
        = Inr (True, False)"
    using vc [OF w23]
    by (simp add: example_vc_step_channels upt_rec np_median_def np_std_def fgt_def
        holding_potential_qc_def limits_def)
  have prim13: "map ((!) (primary example_vc_step))
        [nat (fst (1::int, 3::int))..<nat (snd (1::int, 3::int))]
      = [Some (10 / 10 ^ 12), Some (100 / 10 ^ 12)]"
    by (simp add: example_vc_step_channels upt_rec)
  have prim13': "map ((!) (primary example_vc_step)) [1..<3]
      = [Some (10 / 10 ^ 12), Some (100 / 10 ^ 12)]"
    by (simp add: example_vc_step_channels upt_rec)
  have noisy: "np_std (map ((!) (primary example_vc_step)) [1..<3]) = Some (45 / 10 ^ 12)"
    unfolding prim13' by (rule std45)
  have middle: "window_statistics np_median np_std example_vc_step (1, 3) = Rejected
      \<and> pulse_response_qc_pass np_median np_std example_vc_step (1, 3) (Some 1) []
        = Inr (False, False)"
    using vc [OF w13, unfolded prim13 std45]
    by (simp add: fgt_def)
  show ?thesis
    using medians first last noisy middle by (simp only: simp_thms)
qed

text \<open>
  Claim C9: once the recording-level check, the spike check and the window statistics
  have passed, an adjacent pulse of absolute value below 8e-3 s gives (False, False); if
  every adjacent pulse has absolute value at least 8e-3 s, the empty list included, the
  result is that of the holding-potential check.
\<close>

theorem adjacent_pulse_check:
  assumes "recording_qc_pass r" and "n \<noteq> Some 0"
    and "window_statistics median std r w = Base base"
  shows "((\<exists>x. Some x \<in> set adj \<and> \<bar>x\<bar> < 8 / 10 ^ 3)
            \<longrightarrow> pulse_response_qc_pass median std r w n adj = Inr (False, False))
       \<and> ((\<forall>t \<in> set adj. \<exists>x. t = Some x \<and> 8 / 10 ^ 3 \<le> \<bar>x\<bar>)
            \<longrightarrow> pulse_response_qc_pass median std r w n adj =
                  Inr (holding_potential_qc base (baseline_potential r)))"
proof (intro conjI impI)
  assume "\<exists>x. Some x \<in> set adj \<and> \<bar>x\<bar> < 8 / 10 ^ 3"
  then obtain x where "Some x \<in> set adj" and "\<bar>x\<bar> < 8 / 10 ^ 3" by blast
  then have "list_ex (\<lambda>t. flt (fabs t) (Some (8 / 10 ^ 3))) adj"
    unfolding list_ex_iff by (intro bexI [of _ "Some x"]) simp_all
  then show "pulse_response_qc_pass median std r w n adj = Inr (False, False)"
    using assms by (simp add: pulse_response_qc_pass_def)
next
  assume far: "\<forall>t \<in> set adj. \<exists>x. t = Some x \<and> 8 / 10 ^ 3 \<le> \<bar>x\<bar>"
  have "\<not> list_ex (\<lambda>t. flt (fabs t) (Some (8 / 10 ^ 3))) adj"
    unfolding list_ex_iff
  proof
    assume "\<exists>t \<in> set adj. flt (fabs t) (Some (8 / 10 ^ 3))"
    then obtain t where t: "t \<in> set adj" and c: "flt (fabs t) (Some (8 / 10 ^ 3))" by blast
    from far t obtain x where "t = Some x" and "8 / 10 ^ 3 \<le> \<bar>x\<bar>" by blast
    with c show False by simp
  qed
  then show "pulse_response_qc_pass median std r w n adj =
      Inr (holding_potential_qc base (baseline_potential r))"
    using assms by (simp add: pulse_response_qc_pass_def)
qed

text \<open>
  On \<open>example_vc\<close>: a pulse at 5 ms is rejected; pulses at 8 ms and -9 ms, and no pulse
  at all, give the holding-potential verdicts (True, True).
\<close>

theorem adjacent_pulse_check_witness:
  "pulse_response_qc_pass np_median np_std example_vc (0, 3) (Some 1) [Some (5 / 10 ^ 3)]
     = Inr (False, False)
 \<and> pulse_response_qc_pass np_median np_std example_vc (0, 3) (Some 1)
       [Some (8 / 10 ^ 3), Some (- 9 / 10 ^ 3)] = Inr (True, True)
 \<and> pulse_response_qc_pass np_median np_std example_vc (0, 3) (Some 1) [] = Inr (True, True)"
proof -
  have n: "Some (1::int) \<noteq> Some 0" by simp
  note step = adjacent_pulse_check [OF example_vc_passes n example_vc_window]
  have verdicts: "holding_potential_qc (Some (- 50 / 10 ^ 3)) (baseline_potential example_vc)
      = (True, True)"
    by (simp add: holding_potential_qc_def limits_def example_potentials)
  have near: "\<exists>x::real. Some x \<in> set [Some (5 / 10 ^ 3)] \<and> \<bar>x\<bar> < 8 / 10 ^ 3"
    by (intro exI [of _ "5 / 10 ^ 3"]) simp
  have far: "\<forall>t \<in> set [Some (8 / 10 ^ 3), Some (- 9 / 10 ^ 3)].
      \<exists>x::real. t = Some x \<and> 8 / 10 ^ 3 \<le> \<bar>x\<bar>"
    by force
  have none: "\<forall>t \<in> set []. \<exists>x::real. t = Some x \<and> 8 / 10 ^ 3 \<le> \<bar>x\<bar>"
    by simp
  show ?thesis
    using step [where adj = "[Some (5 / 10 ^ 3)]", THEN conjunct1, THEN mp, OF near]
      step [where adj = "[Some (8 / 10 ^ 3), Some (- 9 / 10 ^ 3)]", THEN conjunct2,
        THEN mp, OF far]
      step [where adj = "[]", THEN conjunct2, THEN mp, OF none]
    by (simp only: verdicts simp_thms)
qed

text \<open>
  Claim C5: when the holding-potential check is reached with \<^verbatim>\<open>base\<close> from the window
  statistics (the median over the window, of the primary channel in current clamp and of
  the command channel in voltage clamp), the excitatory verdict is true exactly when
  \<^verbatim>\<open>base\<close> and the baseline potential both lie strictly inside (-85e-3, -45e-3), the
  inhibitory verdict exactly when both lie strictly inside (-60e-3, -45e-3); when both
  values lie in (-60e-3, -45e-3) both verdicts are true.
\<close>

theorem holding_potential_verdicts:
  assumes "recording_qc_pass r" and "n \<noteq> Some 0"
    and "window_statistics median std r w = Base base"
    and "\<not> list_ex (\<lambda>t. flt (fabs t) (Some (8 / 10 ^ 3))) adj"
  shows "pulse_response_qc_pass median std r w n adj =
           Inr (strictly_inside (- 85 / 10 ^ 3) (- 45 / 10 ^ 3) base
                  \<and> strictly_inside (- 85 / 10 ^ 3) (- 45 / 10 ^ 3) (baseline_potential r),
                strictly_inside (- 60 / 10 ^ 3) (- 45 / 10 ^ 3) base
                  \<and> strictly_inside (- 60 / 10 ^ 3) (- 45 / 10 ^ 3) (baseline_potential r))
       \<and> base = median (py_slice (if clamp_mode r = ''ic'' then primary r else command r)
                          (fst w) (snd w))
       \<and> (strictly_inside (- 60 / 10 ^ 3) (- 45 / 10 ^ 3) base
            \<and> strictly_inside (- 60 / 10 ^ 3) (- 45 / 10 ^ 3) (baseline_potential r)
          \<longrightarrow> pulse_response_qc_pass median std r w n adj = Inr (True, True))"
proof -
  have inside: "(flt (Some lo) v \<and> flt v (Some hi)) = strictly_inside lo hi v" for lo hi v
    by (cases v) (simp_all add: strictly_inside_def)
  have verdicts: "holding_potential_qc base (baseline_potential r) =
      (strictly_inside (- 85 / 10 ^ 3) (- 45 / 10 ^ 3) base
         \<and> strictly_inside (- 85 / 10 ^ 3) (- 45 / 10 ^ 3) (baseline_potential r),
       strictly_inside (- 60 / 10 ^ 3) (- 45 / 10 ^ 3) base
         \<and> strictly_inside (- 60 / 10 ^ 3) (- 45 / 10 ^ 3) (baseline_potential r))"
    unfolding holding_potential_qc_def limits_def Let_def
    by (simp add: inside del: flt.simps)
  have result: "pulse_response_qc_pass median std r w n adj =
      Inr (holding_potential_qc base (baseline_potential r))"
    using assms by (simp add: pulse_response_qc_pass_def)
  have median_of: "base = median (py_slice (if clamp_mode r = ''ic'' then primary r else command r)
                          (fst w) (snd w))"
    using assms(3)
    by (auto simp add: window_statistics_def Let_def split: if_splits sum.splits)
  have subrange: "strictly_inside (- 60 / 10 ^ 3) (- 45 / 10 ^ 3) v
      \<Longrightarrow> strictly_inside (- 85 / 10 ^ 3) (- 45 / 10 ^ 3) v" for v
    by (cases v) (simp_all add: strictly_inside_def)
  show ?thesis
    using result verdicts median_of subrange by auto
qed

text \<open>
  \<open>example_ic\<close> at -70 mV gives (True, False); \<open>example_vc\<close> at -50 mV gives (True, True).
\<close>

theorem holding_potential_verdicts_witness:
  "pulse_response_qc_pass np_median np_std example_ic (0, 3) None [] = Inr (True, False)
 \<and> pulse_response_qc_pass np_median np_std example_vc (0, 3) None [] = Inr (True, True)"
proof -
  have n: "(None :: int option) \<noteq> Some 0" by simp
  have a: "\<not> list_ex (\<lambda>t. flt (fabs t) (Some (8 / 10 ^ 3))) []" by simp
  show ?thesis
    using holding_potential_verdicts [OF example_ic_passes n example_ic_window a]
      holding_potential_verdicts [OF example_vc_passes n example_vc_window a]
    by (simp add: strictly_inside_def example_ic_def example_vc_def)
qed

text \<open>
  Claim C10: whenever \<open>pulse_response_qc_pass\<close> returns a pair, a true inhibitory
  verdict comes with a true excitatory verdict.
\<close>

theorem inhibitory_implies_excitatory:
  assumes "pulse_response_qc_pass median std r w n adj = Inr (ex, inh)" and "inh"
  shows "ex"
proof -
  have sub: "snd (holding_potential_qc b b2) \<Longrightarrow> fst (holding_potential_qc b b2)" for b b2
    by (cases b; cases b2) (simp_all add: holding_potential_qc_def limits_def)
  have "(ex, inh) = (False, False)
      \<or> (\<exists>b. (ex, inh) = holding_potential_qc b (baseline_potential r))"
  proof -
    have "pulse_response_qc_pass median std r w n adj = Inr (False, False)
        \<or> (\<exists>b. pulse_response_qc_pass median std r w n adj =
                 Inr (holding_potential_qc b (baseline_potential r)))
        \<or> (\<exists>e. pulse_response_qc_pass median std r w n adj = Inl e)"
      by (cases "window_statistics median std r w")
        (auto simp add: pulse_response_qc_pass_def)
    with assms(1) show ?thesis by auto
  qed
  then show ?thesis
    using assms(2) sub by (metis fst_conv snd_conv)
qed

text \<open>
  On \<open>example_vc\<close> the inhibitory verdict is true and so is the excitatory one; on
  \<open>example_ic\<close> only the excitatory verdict is true.
\<close>

theorem inhibitory_implies_excitatory_witness:
  "pulse_response_qc_pass np_median np_std example_vc (0, 3) None [] = Inr (True, True)
 \<and> pulse_response_qc_pass np_median np_std example_ic (0, 3) None [] = Inr (True, False)"
proof -
  have n: "(None :: int option) \<noteq> Some 0" by simp
  have vc: "pulse_response_qc_pass np_median np_std example_vc (0, 3) None []
      = Inr (fst (holding_potential_qc (Some (- 50 / 10 ^ 3)) (baseline_potential example_vc)), True)"
    by (simp add: pulse_response_qc_pass_def example_vc_passes example_vc_window
        holding_potential_qc_def limits_def example_potentials)
  have ic: "pulse_response_qc_pass np_median np_std example_ic (0, 3) None [] = Inr (True, False)"
    by (simp add: pulse_response_qc_pass_def example_ic_passes example_ic_window
        holding_potential_qc_def limits_def example_potentials)
  show ?thesis
    using inhibitory_implies_excitatory [OF vc] vc ic by simp
qed

end
